theory Spec2Isabelle
  imports Complex_Main
begin

section \<open>FreshPredict: the dashboard components\<close>

text \<open>
  The repository's sources are the React components of the dashboard
  (\<^verbatim>\<open>InventoryTable\<close>, \<^verbatim>\<open>SustainabilityAlerts\<close>, \<^verbatim>\<open>PreparationAlerts\<close>,
  \<^verbatim>\<open>ForecastChart\<close>, \<^verbatim>\<open>ESGScorecard\<close>, \<^verbatim>\<open>FestivalBanner\<close>, the forecasts page)
  and the type declarations of \<^verbatim>\<open>lib/api.ts\<close>. Each component is embedded as a
  function from its props, its state and the outcome of its request to what it renders
  or to its next state.

  Numbers. A day count is an \<open>int\<close>. The numbers of the chart and of the scorecard,
  which the claims about them compare and divide, are the doubles of the source
  (\<open>jsnum\<close>), with their rounding, their overflow and their signed zero. The quantities
  of an alert, the multiplier of a festival and the numbers of the spec's forecaster are
  reals.
\<close>

subsection \<open>Expiry status and expiry labels\<close>

record ExpiryStatus =
  color :: string
  label :: string

text \<open>\<^verbatim>\<open>getExpiryStatus(days)\<close> of \<^verbatim>\<open>InventoryTable\<close>: the first matching branch wins.\<close>

definition getExpiryStatus :: "int \<Rightarrow> ExpiryStatus" where
  "getExpiryStatus days =
     (if days \<le> 2 then \<lparr>color = ''text-rose-600 bg-rose-50'', label = ''Critical''\<rparr>
      else if days \<le> 5 then \<lparr>color = ''text-amber-600 bg-amber-50'', label = ''Warning''\<rparr>
      else if days \<le> 10 then \<lparr>color = ''text-yellow-600 bg-yellow-50'', label = ''Monitor''\<rparr>
      else \<lparr>color = ''text-emerald-600 bg-emerald-50'', label = ''Good''\<rparr>)"

text \<open>
  What a template of the source renders in the expiry cell: a fixed text, or a day count
  followed by a fixed suffix (\<open>DayCount n s\<close> is the template literal \<^verbatim>\<open>`${n}s`\<close>).
\<close>

datatype expiry_text = Fixed string | DayCount int string






datatype sustainability_alert_type = expiry_risk | overstock | slow_moving

datatype severity = high | medium | low

record SustainabilityAlert =
  id_alert :: string
  product_id :: string
  product_name :: string
  alert_type :: sustainability_alert_type
  severity :: severity
  message :: string
  recommended_action :: string
  days_until_expiry :: int
  potential_waste_kg :: real
  potential_loss_rm :: real
  created_at :: string

text \<open>
  The expiry text of a card of \<^verbatim>\<open>SustainabilityAlerts\<close>:
  \<^verbatim>\<open>isSold ? 'Waste Prevented!' : alert.days_until_expiry <= 0 ? 'EXPIRED'
     : `${alert.days_until_expiry} days left`\<close>.
\<close>

definition alert_expiry_text :: "bool \<Rightarrow> SustainabilityAlert \<Rightarrow> expiry_text" where
  "alert_expiry_text isSold alert =
     (if isSold then Fixed ''Waste Prevented!''
      else if days_until_expiry alert \<le> 0 then Fixed ''EXPIRED''
      else DayCount (days_until_expiry alert) '' days left'')"


definition expired_today_alert :: SustainabilityAlert where
  "expired_today_alert =
     \<lparr>id_alert = ''SA-1'', product_id = ''P-1'', product_name = ''Whole Chicken'',
      alert_type = expiry_risk, severity = high, message = ''Expires today'',
      recommended_action = ''Discount now'', days_until_expiry = 0,
      potential_waste_kg = 10, potential_loss_rm = 150, created_at = ''2026-01-01''\<rparr>"

subsection \<open>Numbers: binary64\<close>

text \<open>
  A JavaScript number is a binary64 value: a finite double, a signed zero, an infinity or
  \<open>NaN\<close>. \<open>Fin x\<close> is the finite double of value \<open>x\<close>, the positive zero when \<open>x\<close> is 0;
  \<open>NegZero\<close> is the negative zero. An arithmetic operation takes the exact real result
  and rounds it to the nearest double, a tie to the even mantissa; a rounded result of
  magnitude \<open>2 ^ 1024\<close> or more is an infinity, and a zero result keeps the sign of the
  exact operation.
\<close>

datatype jsnum = Fin real | NegZero | PosInf | NegInf | NaN

text \<open>The nearest integer, a tie to the even one.\<close>

definition round_half_even :: "real \<Rightarrow> int" where
  "round_half_even y =
     (let f = \<lfloor>y\<rfloor>
      in if y - of_int f < 1 / 2 then f
         else if 1 / 2 < y - of_int f then f + 1
         else if even f then f else f + 1)"

text \<open>
  The exponent of the binade of \<open>x\<close>, not below that of the subnormal numbers, and the
  distance of neighbouring doubles there (the mantissa has 53 bits).
\<close>

definition binade :: "real \<Rightarrow> int" where
  "binade x = max \<lfloor>log 2 \<bar>x\<bar>\<rfloor> (- 1022)"

definition ulp :: "real \<Rightarrow> real" where
  "ulp x = 2 powi (binade x - 52)"

text \<open>Rounding to the nearest double, the exponent not yet bounded above.\<close>

definition round_double :: "real \<Rightarrow> real" where
  "round_double x = (if x = 0 then 0 else of_int (round_half_even (x / ulp x)) * ulp x)"

text \<open>
  The relative rounding error of a normal number, the absolute rounding error of a
  subnormal one, and the magnitude from which a rounded result is an infinity.
\<close>

definition eps :: real where
  "eps = 2 powi (- 53)"

definition tiny :: real where
  "tiny = 2 powi (- 1075)"

definition overflow :: real where
  "overflow = 2 powi 1024"

fun negative :: "jsnum \<Rightarrow> bool" where
  "negative (Fin a) = (a < 0)"
| "negative NegZero = True"
| "negative NegInf = True"
| "negative x = False"

fun is_zero :: "jsnum \<Rightarrow> bool" where
  "is_zero (Fin a) = (a = 0)"
| "is_zero NegZero = True"
| "is_zero x = False"

fun is_infinite :: "jsnum \<Rightarrow> bool" where
  "is_infinite PosInf = True"
| "is_infinite NegInf = True"
| "is_infinite x = False"

fun is_finite :: "jsnum \<Rightarrow> bool" where
  "is_finite (Fin a) = True"
| "is_finite NegZero = True"
| "is_finite x = False"

fun value_of :: "jsnum \<Rightarrow> real" where
  "value_of (Fin a) = a"
| "value_of x = 0"

text \<open>
  The number that an operation returns for the exact result \<open>x\<close>, where \<open>neg\<close> tells
  whether the exact operation is negative (for a zero result, from the signs of the
  operands).
\<close>

definition js_round :: "bool \<Rightarrow> real \<Rightarrow> jsnum" where
  "js_round neg x =
     (let r = round_double x
      in if r = 0 then (if neg then NegZero else Fin 0)
         else if overflow \<le> \<bar>r\<bar> then (if neg then NegInf else PosInf)
         else Fin r)"

text \<open>
  A decimal numeral, of the source or of a JSON body, with the value \<open>x\<close>: the nearest
  double.
\<close>

definition decimal :: "real \<Rightarrow> jsnum" where
  "decimal x = js_round (x < 0) x"

text \<open>The operator \<^verbatim>\<open>/\<close>.\<close>

definition js_div :: "jsnum \<Rightarrow> jsnum \<Rightarrow> jsnum" where
  "js_div x y =
     (if x = NaN \<or> y = NaN then NaN
      else let neg = (negative x \<noteq> negative y)
           in if is_infinite x
              then (if is_infinite y then NaN else if neg then NegInf else PosInf)
              else if is_infinite y then (if neg then NegZero else Fin 0)
              else if is_zero y
              then (if is_zero x then NaN else if neg then NegInf else PosInf)
              else js_round neg (value_of x / value_of y))"

text \<open>The operator \<^verbatim>\<open>*\<close>.\<close>

definition js_times :: "jsnum \<Rightarrow> jsnum \<Rightarrow> jsnum" where
  "js_times x y =
     (if x = NaN \<or> y = NaN then NaN
      else let neg = (negative x \<noteq> negative y)
           in if is_infinite x
              then (if is_zero y then NaN else if neg then NegInf else PosInf)
              else if is_infinite y
              then (if is_zero x then NaN else if neg then NegInf else PosInf)
              else js_round neg (value_of x * value_of y))"

text \<open>
  \<^verbatim>\<open>Math.max(...xs)\<close>: \<open>NaN\<close> when an argument is \<open>NaN\<close>, else the largest argument, the
  positive zero above the negative one, and \<open>-Infinity\<close> for no argument.
\<close>

definition max2 :: "jsnum \<Rightarrow> jsnum \<Rightarrow> jsnum" where
  "max2 x y =
     (if x = NaN \<or> y = NaN then NaN
      else if x = PosInf \<or> y = PosInf then PosInf
      else if x = NegInf then y
      else if y = NegInf then x
      else if value_of x < value_of y then y
      else if value_of y < value_of x then x
      else if x = NegZero then y else x)"

definition Math_max :: "jsnum list \<Rightarrow> jsnum" where
  "Math_max xs = foldl max2 NegInf xs"

subsection \<open>ForecastChart\<close>

datatype trend = increasing | decreasing | stable

text \<open>
  \<^verbatim>\<open>ForecastResult\<close> of \<^verbatim>\<open>lib/api.ts\<close>. The numbers are of type \<open>'n\<close>: doubles in the
  client, reals where the spec computes them.
\<close>

record 'n ForecastResult =
  forecast_product_id :: string
  forecast_product_name :: string
  dates :: "string list"
  predicted_demand :: "'n list"
  confidence_lower :: "'n list"
  confidence_upper :: "'n list"
  trend :: trend
  festive_impact :: "string option"

record Bar =
  height :: jsnum
  lowerHeight :: jsnum
  upperHeight :: jsnum

text \<open>
  Rendering fails with a \<^verbatim>\<open>TypeError\<close> where the source calls a method on
  \<^verbatim>\<open>undefined\<close>: the callback of \<^verbatim>\<open>forecast.dates.map\<close> reads position \<open>i\<close> of the three
  number arrays and calls \<^verbatim>\<open>toFixed\<close> on each value, and a read past the end of an array
  gives \<^verbatim>\<open>undefined\<close>.
\<close>

datatype render_error = TypeError

definition chart_bar :: "jsnum ForecastResult \<Rightarrow> jsnum \<Rightarrow> nat \<Rightarrow> render_error + Bar" where
  "chart_bar forecast maxDemand i =
     (if i < length (predicted_demand forecast) \<and> i < length (confidence_lower forecast)
         \<and> i < length (confidence_upper forecast)
      then let demand = predicted_demand forecast ! i;
               lower = confidence_lower forecast ! i;
               upper = confidence_upper forecast ! i
           in Inr \<lparr>height = js_times (js_div demand maxDemand) (Fin 100),
                   lowerHeight = js_times (js_div lower maxDemand) (Fin 100),
                   upperHeight = js_times (js_div upper maxDemand) (Fin 100)\<rparr>
      else Inl TypeError)"

fun collect :: "('e + 'a) list \<Rightarrow> 'e + 'a list" where
  "collect [] = Inr []"
| "collect (Inl e # rs) = Inl e"
| "collect (Inr x # rs) = (case collect rs of Inl e \<Rightarrow> Inl e | Inr xs \<Rightarrow> Inr (x # xs))"

text \<open>The bars of the chart: one for each position of \<^verbatim>\<open>forecast.dates\<close>.\<close>

definition chart_bars :: "jsnum ForecastResult \<Rightarrow> render_error + Bar list" where
  "chart_bars forecast =
     (let maxDemand = Math_max (confidence_upper forecast)
      in collect (map (chart_bar forecast maxDemand) [0 ..< length (dates forecast)]))"

definition bar_finite :: "Bar \<Rightarrow> bool" where
  "bar_finite b = (is_finite (height b) \<and> is_finite (lowerHeight b) \<and> is_finite (upperHeight b))"

text \<open>A finite number whose magnitude is at most that of \<open>m\<close>.\<close>

definition magnitude_within :: "real \<Rightarrow> jsnum \<Rightarrow> bool" where
  "magnitude_within m x = (is_finite x \<and> \<bar>value_of x\<bar> \<le> \<bar>m\<bar>)"

definition no_demand_forecast :: "jsnum ForecastResult" where
  "no_demand_forecast =
     \<lparr>forecast_product_id = ''P-1'', forecast_product_name = ''Whole Chicken'',
      dates = [''2026-01-02''], predicted_demand = [Fin 0], confidence_lower = [Fin 0],
      confidence_upper = [Fin 0], trend = stable, festive_impact = None\<rparr>"

text \<open>A forecast whose predicted demand is far above the maximum of its upper bounds.\<close>

definition surging_forecast :: "jsnum ForecastResult" where
  "surging_forecast =
     \<lparr>forecast_product_id = ''P-1'', forecast_product_name = ''Whole Chicken'',
      dates = [''2026-01-02''], predicted_demand = [Fin (2 ^ 1023)], confidence_lower = [Fin 0],
      confidence_upper = [Fin 1], trend = stable, festive_impact = None\<rparr>"

subsection \<open>ESGScorecard\<close>

record MonthlyTrend =
  month :: string
  waste_kg :: jsnum
  saved_kg :: jsnum


text \<open>
  The bars of the monthly trend, rendered when \<^verbatim>\<open>monthly_trend.length > 0\<close>: for each
  month the pair \<^verbatim>\<open>(wasteHeight, savedHeight)\<close>.
\<close>

definition monthly_trend_bars :: "MonthlyTrend list \<Rightarrow> (jsnum \<times> jsnum) list" where
  "monthly_trend_bars trend_months =
     (if length trend_months > 0
      then map (\<lambda>m. let maxWaste = Math_max (map waste_kg trend_months)
                    in (js_times (js_div (waste_kg m) maxWaste) (Fin 100),
                        js_times (js_div (saved_kg m) maxWaste) (Fin 100)))
               trend_months
      else [])"

text \<open>
  The outcome of a \<^verbatim>\<open>fetch\<close> followed by \<^verbatim>\<open>response.json()\<close>: the parsed body, or a
  failure (the request threw, the status was not ok, or the body did not parse), which
  the source handles in one \<^verbatim>\<open>catch\<close>; the failure carries the message of the error.
\<close>

datatype 'a fetch_outcome = Fetched 'a | FetchFailed string






subsection \<open>The alert panels\<close>

text \<open>
  The state that \<^verbatim>\<open>PreparationAlerts\<close> and \<^verbatim>\<open>SustainabilityAlerts\<close> share: the alerts,
  the loading flag and the error message (\<open>None\<close> is \<^verbatim>\<open>null\<close>).
\<close>

record 'a panel_state =
  alerts :: "'a list"
  loading :: bool
  error :: "string option"

text \<open>
  The initial state, from the prop \<^verbatim>\<open>alerts\<close>: \<^verbatim>\<open>useState(propAlerts || [])\<close>,
  \<^verbatim>\<open>useState(!propAlerts)\<close>, \<^verbatim>\<open>useState(null)\<close>. An array is truthy even when empty.
\<close>

definition panel_initial :: "'a list option \<Rightarrow> 'a panel_state" where
  "panel_initial propAlerts =
     \<lparr>alerts = (case propAlerts of Some a \<Rightarrow> a | None \<Rightarrow> []),
      loading = (propAlerts = None),
      error = None\<rparr>"

text \<open>
  The effect of both panels: the alerts of the prop when it is given, else the outcome of
  the request for the alerts.
\<close>

definition fetch_alerts_effect ::
  "'a list option \<Rightarrow> 'a list fetch_outcome \<Rightarrow> ('a, 'z) panel_state_scheme
     \<Rightarrow> ('a, 'z) panel_state_scheme" where
  "fetch_alerts_effect propAlerts outcome st =
     (case propAlerts of
        Some a \<Rightarrow> st\<lparr>alerts := a\<rparr>
      | None \<Rightarrow>
          (case outcome of
             Fetched data \<Rightarrow> st\<lparr>alerts := data, loading := False\<rparr>
           | FetchFailed msg \<Rightarrow> st\<lparr>error := Some msg, loading := False\<rparr>))"

text \<open>
  \<^verbatim>\<open>alerts.slice(0, maxItems)\<close> for an integer \<^verbatim>\<open>maxItems\<close>: a negative end counts from
  the end of the array.
\<close>

definition slice0 :: "'a list \<Rightarrow> int \<Rightarrow> 'a list" where
  "slice0 xs e =
     (let len = int (length xs);
          final = (if e < 0 then max (len + e) 0 else min e len)
      in take (nat final) xs)"

text \<open>
  What a panel renders: the loading skeleton, the error box, or the cards of the
  displayed alerts and whether the \<open>View all\<close> button follows them.
\<close>

datatype 'c panel_view = Skeleton | ErrorBox string | Panel "'c list" bool

text \<open>\<^verbatim>\<open>if (error)\<close>: a message is truthy when it is not the empty string.\<close>

fun error_shown :: "string option \<Rightarrow> bool" where
  "error_shown None = False"
| "error_shown (Some msg) = (msg \<noteq> [])"

definition PreparationAlerts :: "int \<Rightarrow> ('a, 'z) panel_state_scheme \<Rightarrow> 'a panel_view" where
  "PreparationAlerts maxItems st =
     (if loading st then Skeleton
      else if error_shown (error st) then ErrorBox (the (error st))
      else let displayAlerts = slice0 (alerts st) maxItems
           in Panel displayAlerts (int (length (alerts st)) > maxItems))"

fun shown_cards :: "'c panel_view \<Rightarrow> 'c list" where
  "shown_cards (Panel cards view_all) = cards"
| "shown_cards v = []"

fun view_all_shown :: "'c panel_view \<Rightarrow> bool" where
  "view_all_shown (Panel cards view_all) = view_all"
| "view_all_shown v = False"

subsection \<open>SustainabilityAlerts: marking an alert as sold\<close>

record sa_state = "SustainabilityAlert panel_state" +
  soldAlerts :: "string set"
  markingId :: "string option"
  onAlertSold_calls :: nat

text \<open>
  The initial state of \<^verbatim>\<open>SustainabilityAlerts\<close>: that of a panel, no alert sold, none
  marking.
\<close>

definition sa_initial :: "SustainabilityAlert list option \<Rightarrow> sa_state" where
  "sa_initial propAlerts =
     \<lparr>alerts = (case propAlerts of Some a \<Rightarrow> a | None \<Rightarrow> []),
      loading = (propAlerts = None),
      error = None,
      soldAlerts = {}, markingId = None, onAlertSold_calls = 0\<rparr>"

text \<open>The body of the request \<^verbatim>\<open>POST /alerts/mark-sold\<close>.\<close>

record MarkSoldBody =
  alert_id :: string
  body_product_id :: string
  quantity_kg :: real
  cost_rm :: real

definition mark_sold_body :: "SustainabilityAlert \<Rightarrow> MarkSoldBody" where
  "mark_sold_body alert =
     \<lparr>alert_id = id_alert alert,
      body_product_id = product_id alert,
      quantity_kg = potential_waste_kg alert,
      cost_rm = potential_loss_rm alert\<rparr>"

text \<open>
  What the \<^verbatim>\<open>await fetch\<close> of \<^verbatim>\<open>handleMarkAsSold\<close> gives: a response with its \<^verbatim>\<open>ok\<close>
  flag, or a rejection, which the \<^verbatim>\<open>catch\<close> logs.
\<close>

datatype http_outcome = Responded bool | Rejected

text \<open>
  \<^verbatim>\<open>handleMarkAsSold(alert)\<close>, from the click to the \<^verbatim>\<open>finally\<close>: the alert is marking
  while the request is in flight; its id joins \<^verbatim>\<open>soldAlerts\<close> and \<^verbatim>\<open>onAlertSold\<close> is
  called when the response is ok; the marking id is cleared in every case.
\<close>

definition handleMarkAsSold_begin :: "SustainabilityAlert \<Rightarrow> sa_state \<Rightarrow> sa_state" where
  "handleMarkAsSold_begin alert st = st\<lparr>markingId := Some (id_alert alert)\<rparr>"

definition handleMarkAsSold_finish ::
  "SustainabilityAlert \<Rightarrow> http_outcome \<Rightarrow> sa_state \<Rightarrow> sa_state" where
  "handleMarkAsSold_finish alert outcome st =
     (let st1 = (case outcome of
                   Responded ok \<Rightarrow>
                     (if ok then st\<lparr>soldAlerts := insert (id_alert alert) (soldAlerts st),
                                    onAlertSold_calls := Suc (onAlertSold_calls st)\<rparr>
                      else st)
                 | Rejected \<Rightarrow> st)
      in st1\<lparr>markingId := None\<rparr>)"

definition handleMarkAsSold ::
  "SustainabilityAlert \<Rightarrow> http_outcome \<Rightarrow> sa_state \<Rightarrow> sa_state" where
  "handleMarkAsSold alert outcome st =
     handleMarkAsSold_finish alert outcome (handleMarkAsSold_begin alert st)"

fun alertTypeLabels :: "sustainability_alert_type \<Rightarrow> string" where
  "alertTypeLabels expiry_risk = ''Expiry Risk''"
| "alertTypeLabels overstock = ''Overstock''"
| "alertTypeLabels slow_moving = ''Slow Moving''"

text \<open>
  The card of one alert: the badge, the expiry text, the message line, and, only while
  the alert is not sold, the recommended action and the button with its label and its
  \<^verbatim>\<open>disabled\<close> flag.
\<close>

record AlertCard =
  card_badge :: string
  card_expiry :: expiry_text
  card_message :: string
  card_action :: "string option"
  card_button :: "(string \<times> bool) option"

definition alert_card :: "sa_state \<Rightarrow> SustainabilityAlert \<Rightarrow> AlertCard" where
  "alert_card st alert =
     (let isSold = (id_alert alert \<in> soldAlerts st);
          isMarking = (markingId st = Some (id_alert alert))
      in \<lparr>card_badge = (if isSold then ''Sold'' else alertTypeLabels (alert_type alert)),
          card_expiry = alert_expiry_text isSold alert,
          card_message = (if isSold then ''Item sold - ESG metrics updated'' else message alert),
          card_action = (if isSold then None else Some (recommended_action alert)),
          card_button = (if isSold then None
                         else Some (if isMarking then ''Saving...'' else ''Mark as Sold'',
                                    isMarking))\<rparr>)"

definition SustainabilityAlerts :: "int \<Rightarrow> sa_state \<Rightarrow> AlertCard panel_view" where
  "SustainabilityAlerts maxItems st =
     (if loading st then Skeleton
      else if error_shown (error st) then ErrorBox (the (error st))
      else let displayAlerts = slice0 (alerts st) maxItems
           in Panel (map (alert_card st) displayAlerts)
                (int (length (alerts st)) > maxItems))"

text \<open>
  A state in which a panel that is loading or shows an error holds no alerts. The states
  of a panel's life are of this kind: the initial state, the state after the effect, and
  every state that marking alerts as sold leads to from them.
\<close>

definition settled :: "('a, 'z) panel_state_scheme \<Rightarrow> bool" where
  "settled st = (if loading st \<or> error_shown (error st) then alerts st = [] else True)"

subsection \<open>The sustainability ledger behind \<open>POST /alerts/mark-sold\<close>\<close>

text \<open>
  Modelled from the spec: the event of the sustainability ledger, which the backend keeps
  and which is missing from the sources (section 3: the alert, the product, the quantity,
  the cost recovered and the time).
\<close>

record LedgerEvent =
  event_alert_id :: string
  event_product_id :: string
  event_quantity_kg :: real
  cost_recovered :: real
  timestamp :: nat

datatype ledger_error = InvalidQuantity

text \<open>
  Modelled from the spec: \<open>markSold(alertId, productId, quantityKg, costRecovered)\<close> of the
  backend, which is missing from the sources. It appends one event carrying the request's
  fields to the append-only log; a non-positive quantity is rejected at the boundary with
  \<open>InvalidQuantity\<close> and the log is unchanged.
\<close>

definition markSold ::
  "MarkSoldBody \<Rightarrow> nat \<Rightarrow> LedgerEvent list \<Rightarrow> ledger_error + LedgerEvent list" where
  "markSold body now ledger =
     (if quantity_kg body \<le> 0 then Inl InvalidQuantity
      else Inr (ledger @
        [\<lparr>event_alert_id = alert_id body,
          event_product_id = body_product_id body,
          event_quantity_kg = quantity_kg body,
          cost_recovered = cost_rm body,
          timestamp = now\<rparr>]))"

text \<open>
  The client and the ledger together. A request reaches the backend or not; when it did,
  the response reaches the client or is lost on the way, and then \<^verbatim>\<open>fetch\<close> rejects.
\<close>

record world =
  client :: sa_state
  ledger :: "LedgerEvent list"

datatype delivery = Unreachable | Delivered | ResponseLost

text \<open>
  One click on \<open>Mark as Sold\<close>: the client sends \<open>mark_sold_body alert\<close>, the backend
  answers ok exactly when it appended the event, and \<open>handleMarkAsSold\<close> sees the outcome.
\<close>

definition mark_sold_round :: "SustainabilityAlert \<times> delivery \<times> nat \<Rightarrow> world \<Rightarrow> world" where
  "mark_sold_round click w =
     (case click of (alert, d, now) \<Rightarrow>
        (case d of
           Unreachable \<Rightarrow> w\<lparr>client := handleMarkAsSold alert Rejected (client w)\<rparr>
         | Delivered \<Rightarrow>
             (case markSold (mark_sold_body alert) now (ledger w) of
                Inl e \<Rightarrow> w\<lparr>client := handleMarkAsSold alert (Responded False) (client w)\<rparr>
              | Inr l \<Rightarrow> \<lparr>client = handleMarkAsSold alert (Responded True) (client w),
                          ledger = l\<rparr>)
         | ResponseLost \<Rightarrow>
             (case markSold (mark_sold_body alert) now (ledger w) of
                Inl e \<Rightarrow> w\<lparr>client := handleMarkAsSold alert Rejected (client w)\<rparr>
              | Inr l \<Rightarrow> \<lparr>client = handleMarkAsSold alert Rejected (client w),
                          ledger = l\<rparr>)))"

fun run_rounds :: "(SustainabilityAlert \<times> delivery \<times> nat) list \<Rightarrow> world \<Rightarrow> world" where
  "run_rounds [] w = w"
| "run_rounds (click # clicks) w = run_rounds clicks (mark_sold_round click w)"

text \<open>The ledger event that corresponds to an alert resolved at a given time.\<close>

definition event_of :: "SustainabilityAlert \<Rightarrow> nat \<Rightarrow> LedgerEvent" where
  "event_of alert now =
     \<lparr>event_alert_id = id_alert alert,
      event_product_id = product_id alert,
      event_quantity_kg = potential_waste_kg alert,
      cost_recovered = potential_loss_rm alert,
      timestamp = now\<rparr>"

definition one_click_world :: world where
  "one_click_world = \<lparr>client = sa_initial (Some [expired_today_alert]), ledger = []\<rparr>"

subsection \<open>The forecasts page and the forecast request\<close>

text \<open>
  \<^verbatim>\<open>parseInt(s)\<close> with no radix: leading white space is skipped, a sign is read, the prefix
  \<open>0x\<close> selects radix 16, and the longest prefix of digits of the radix is the value;
  \<open>NaN\<close> when there is no digit. The white space is that of ASCII.
\<close>

definition is_space :: "char \<Rightarrow> bool" where
  "is_space c = (c \<in> set [CHR '' '', CHR 0x09, CHR 0x0A, CHR 0x0B, CHR 0x0C, CHR 0x0D])"

definition digit_value :: "char \<Rightarrow> nat option" where
  "digit_value c =
     (let n = (of_char c :: nat)
      in if 48 \<le> n \<and> n \<le> 57 then Some (n - 48)
         else if 97 \<le> n \<and> n \<le> 122 then Some (n - 87)
         else if 65 \<le> n \<and> n \<le> 90 then Some (n - 55)
         else None)"

definition is_digit_of :: "nat \<Rightarrow> char \<Rightarrow> bool" where
  "is_digit_of radix c = (case digit_value c of Some d \<Rightarrow> d < radix | None \<Rightarrow> False)"

definition digits_value :: "nat \<Rightarrow> string \<Rightarrow> nat" where
  "digits_value radix ds = foldl (\<lambda>acc c. acc * radix + the (digit_value c)) 0 ds"

definition parseInt :: "string \<Rightarrow> jsnum" where
  "parseInt s =
     (let s1 = dropWhile is_space s;
          negative = (s1 \<noteq> [] \<and> hd s1 = CHR ''-'');
          s2 = (if s1 \<noteq> [] \<and> (hd s1 = CHR ''-'' \<or> hd s1 = CHR ''+'') then tl s1 else s1);
          hex = (take 2 s2 = ''0x'' \<or> take 2 s2 = ''0X'');
          radix = (if hex then 16 else 10);
          s3 = (if hex then drop 2 s2 else s2);
          ds = takeWhile (is_digit_of radix) s3
      in if ds = [] then NaN
         else Fin (if negative then - real (digits_value radix ds)
                   else real (digits_value radix ds)))"

text \<open>
  The state of \<^verbatim>\<open>ForecastsPage\<close>: \<^verbatim>\<open>useState(14)\<close> for the days and \<^verbatim>\<open>useState(0)\<close> for
  the refresh key.
\<close>

record forecasts_page =
  forecastDays :: jsnum
  refreshKey :: nat

definition forecasts_page_initial :: forecasts_page where
  "forecasts_page_initial = \<lparr>forecastDays = Fin 14, refreshKey = 0\<rparr>"

text \<open>The \<open>value\<close> attributes of the options of the page's \<^verbatim>\<open>select\<close>, in their order.\<close>

definition select_options :: "string list" where
  "select_options = [''7'', ''14'', ''30'']"

definition handleRefresh :: "forecasts_page \<Rightarrow> forecasts_page" where
  "handleRefresh st = st\<lparr>refreshKey := refreshKey st + 1\<rparr>"

text \<open>\<^verbatim>\<open>handleDaysChange(e)\<close>, from \<^verbatim>\<open>e.target.value\<close>.\<close>

definition handleDaysChange :: "string \<Rightarrow> forecasts_page \<Rightarrow> forecasts_page" where
  "handleDaysChange target_value st =
     st\<lparr>forecastDays := parseInt target_value, refreshKey := refreshKey st + 1\<rparr>"

text \<open>
  What the user can do on the page: press \<open>Refresh Forecast\<close>, or choose an option of the
  \<^verbatim>\<open>select\<close>, whose change event carries the option's value.
\<close>

datatype page_event = RefreshClick | DaysChange string

fun page_step :: "page_event \<Rightarrow> forecasts_page \<Rightarrow> forecasts_page" where
  "page_step RefreshClick st = handleRefresh st"
| "page_step (DaysChange v) st = handleDaysChange v st"

fun run_page :: "page_event list \<Rightarrow> forecasts_page \<Rightarrow> forecasts_page" where
  "run_page [] st = st"
| "run_page (e # es) st = run_page es (page_step e st)"

fun from_select :: "page_event \<Rightarrow> bool" where
  "from_select RefreshClick = True"
| "from_select (DaysChange v) = (v \<in> set select_options)"

text \<open>
  The \<^verbatim>\<open>days\<close> of the request \<^verbatim>\<open>GET /forecast?days=${days}\<close> of \<^verbatim>\<open>ForecastChart\<close>: the prop,
  14 when the prop is not given (\<open>None\<close>).
\<close>

definition ForecastChart_days :: "jsnum option \<Rightarrow> jsnum" where
  "ForecastChart_days days = (case days of None \<Rightarrow> Fin 14 | Some d \<Rightarrow> d)"

text \<open>
  The page renders \<^verbatim>\<open><ForecastChart key={refreshKey} days={forecastDays} />\<close>, the dashboard
  renders \<^verbatim>\<open><ForecastChart />\<close>.
\<close>

definition forecasts_page_request_days :: "forecasts_page \<Rightarrow> jsnum" where
  "forecasts_page_request_days st = ForecastChart_days (Some (forecastDays st))"

definition dashboard_request_days :: jsnum where
  "dashboard_request_days = ForecastChart_days None"

text \<open>
  The \<^verbatim>\<open>days\<close> of the requests of \<^verbatim>\<open>api.getForecast(productId, days = 14)\<close> and
  \<^verbatim>\<open>api.getAllForecasts(days = 14)\<close> of \<^verbatim>\<open>lib/api.ts\<close>, which no component calls.
\<close>

definition getForecast_days :: "jsnum option \<Rightarrow> jsnum" where
  "getForecast_days days = (case days of None \<Rightarrow> Fin 14 | Some d \<Rightarrow> d)"

definition getAllForecasts_days :: "jsnum option \<Rightarrow> jsnum" where
  "getAllForecasts_days days = (case days of None \<Rightarrow> Fin 14 | Some d \<Rightarrow> d)"

datatype forecast_error = InvalidHorizon

text \<open>
  Modelled from the spec: the forecaster's check of the horizon, which is missing from the
  sources (section 4.2: \<open>horizon_days\<close> is 7, 14 or 30, other values are rejected with
  \<open>InvalidHorizon\<close>).
\<close>

definition check_horizon :: "jsnum \<Rightarrow> forecast_error + nat" where
  "check_horizon days =
     (if days = Fin 7 then Inr 7 else if days = Fin 14 then Inr 14
      else if days = Fin 30 then Inr 30 else Inl InvalidHorizon)"

subsection \<open>FestivalBanner\<close>

record Festival =
  name :: string
  date :: string
  impact_categories :: "string list"
  demand_multiplier :: real
  days_until :: int


text \<open>The state \<^verbatim>\<open>festivals\<close> after the effect: \<^verbatim>\<open>data.slice(0, 2)\<close>, or still empty.\<close>

definition banner_festivals :: "Festival list fetch_outcome \<Rightarrow> Festival list" where
  "banner_festivals outcome =
     (case outcome of Fetched data \<Rightarrow> take 2 data | FetchFailed msg \<Rightarrow> [])"





subsection \<open>The forecaster\<close>

text \<open>
  Modelled from the spec: the inputs of the forecaster, which runs in the backend and is
  missing from the sources (section 4.2). The spec leaves the regression of step 1 and
  the seasonality model open, so their results are inputs: the per-day baseline demand,
  for each forecast day the ratio of the historical average of its weekday to the overall
  average, whether the day lies in the payday cycle, and the nearest festival that falls
  within the horizon and impacts the product's category (its name, the index of its day,
  its multiplier).
\<close>

record forecaster_inputs =
  fc_product_id :: string
  fc_product_name :: string
  today :: int
  date_text :: "int \<Rightarrow> string"
  baseline :: "nat \<Rightarrow> real"
  dow_ratio :: "nat \<Rightarrow> real"
  in_payday_cycle :: "nat \<Rightarrow> bool"
  payday_magnitude :: real
  festival :: "(string \<times> nat \<times> real) option"
  festival_window :: nat
  band_factor :: real

text \<open>
  Modelled from the spec: the clamp of a seasonal multiplier, missing from the sources
  (section 4.1: the historical average of the bucket divided by the overall average,
  clamped to [0.5, 3.0]).
\<close>

definition clamp_multiplier :: "real \<Rightarrow> real" where
  "clamp_multiplier r = max 0.5 (min 3.0 r)"

text \<open>
  Modelled from the spec: the payday multiplier, missing from the sources (section 4.1:
  elevated by the magnitude, by default 0.3, on the days of the payday cycle, baseline
  otherwise).
\<close>

definition payday_multiplier :: "forecaster_inputs \<Rightarrow> nat \<Rightarrow> real" where
  "payday_multiplier inp i = (if in_payday_cycle inp i then 1 + payday_magnitude inp else 1)"

text \<open>
  Modelled from the spec: the festival overlay, missing from the sources (section 4.2,
  step 3: the days within the window around the festival's day are multiplied by the
  festival's multiplier, tapering linearly: the full multiplier on the day itself, falling
  in equal steps to 1 just outside the window).
\<close>

definition festival_overlay :: "forecaster_inputs \<Rightarrow> nat \<Rightarrow> real" where
  "festival_overlay inp i =
     (case festival inp of
        None \<Rightarrow> 1
      | Some (festival_name, peak, multiplier) \<Rightarrow>
          (let distance = \<bar>int i - int peak\<bar>
           in if distance \<le> int (festival_window inp)
              then 1 + (multiplier - 1)
                       * (1 - real_of_int distance / real (festival_window inp + 1))
              else 1))"

text \<open>
  Modelled from the spec: the prediction of a day, missing from the sources (section 4.2,
  steps 2 and 3: baseline times day-of-week multiplier times payday multiplier, then the
  festival overlay).
\<close>

definition predicted_day :: "forecaster_inputs \<Rightarrow> nat \<Rightarrow> real" where
  "predicted_day inp i =
     baseline inp i * clamp_multiplier (dow_ratio inp i) * payday_multiplier inp i
       * festival_overlay inp i"

text \<open>
  Modelled from the spec: the half-width of the confidence band, missing from the sources
  (section 4.2, step 4: \<open>bound(i) = predicted(i) * k * sqrt(i + 1)\<close>).
\<close>

definition bound :: "forecaster_inputs \<Rightarrow> nat \<Rightarrow> real" where
  "bound inp i = predicted_day inp i * band_factor inp * sqrt (real (i + 1))"

text \<open>Modelled from the spec: the mean of step 5 of section 4.2.\<close>

definition mean :: "real list \<Rightarrow> real" where
  "mean xs = sum_list xs / real (length xs)"

text \<open>
  Modelled from the spec: the trend label, missing from the sources (section 4.2, step 5:
  the mean of the last 3 predicted days against the mean of the first 3).
\<close>

definition classify_trend :: "real list \<Rightarrow> trend" where
  "classify_trend predicted =
     (let first = mean (take 3 predicted);
          last3 = mean (drop (length predicted - 3) predicted)
      in if last3 > first * 1.1 then increasing
         else if last3 < first * 0.9 then decreasing
         else stable)"

text \<open>
  Modelled from the spec: \<open>forecast(product, horizon_days)\<close>, missing from the sources
  (section 4.2). It rejects an unsupported horizon; else the dates are the next
  \<open>horizon_days\<close> days after today, the band is applied symmetrically and the lower bound
  is floored at 0.
\<close>

definition forecast ::
  "forecaster_inputs \<Rightarrow> jsnum \<Rightarrow> forecast_error + real ForecastResult" where
  "forecast inp horizon_days =
     (case check_horizon horizon_days of
        Inl e \<Rightarrow> Inl e
      | Inr h \<Rightarrow>
          (let predicted = map (predicted_day inp) [0 ..< h]
           in Inr \<lparr>forecast_product_id = fc_product_id inp,
                   forecast_product_name = fc_product_name inp,
                   dates = map (\<lambda>i. date_text inp (today inp + 1 + int i)) [0 ..< h],
                   predicted_demand = predicted,
                   confidence_lower =
                     map (\<lambda>i. max 0 (predicted_day inp i - bound inp i)) [0 ..< h],
                   confidence_upper =
                     map (\<lambda>i. predicted_day inp i + bound inp i) [0 ..< h],
                   trend = classify_trend predicted,
                   festive_impact = map_option fst (festival inp)\<rparr>))"

text \<open>
  The forecast as the client receives it: each number of the JSON body is parsed to the
  nearest double.
\<close>

definition received :: "real ForecastResult \<Rightarrow> jsnum ForecastResult" where
  "received r =
     \<lparr>forecast_product_id = forecast_product_id r,
      forecast_product_name = forecast_product_name r,
      dates = dates r,
      predicted_demand = map decimal (predicted_demand r),
      confidence_lower = map decimal (confidence_lower r),
      confidence_upper = map decimal (confidence_upper r),
      trend = trend r,
      festive_impact = festive_impact r\<rparr>"

text \<open>The example of the spec: a constant demand of 10 a day and no festival.\<close>

definition constant_inputs :: forecaster_inputs where
  "constant_inputs =
     \<lparr>fc_product_id = ''P-1'', fc_product_name = ''Whole Chicken'', today = 0,
      date_text = (\<lambda>d. if d = 1 then ''2026-01-02'' else ''2026-01-03''),
      baseline = (\<lambda>i. 10), dow_ratio = (\<lambda>i. 1), in_payday_cycle = (\<lambda>i. False),
      payday_magnitude = 0.3, festival = None, festival_window = 3,
      band_factor = 0.15\<rparr>"

text \<open>
  A falling demand: the regression gives a baseline of 10 for the first forecast day and a
  slope of -4 a day.
\<close>

definition declining_inputs :: forecaster_inputs where
  "declining_inputs =
     \<lparr>fc_product_id = ''P-1'', fc_product_name = ''Whole Chicken'', today = 0,
      date_text = (\<lambda>d. if d = 1 then ''2026-01-02'' else ''2026-01-03''),
      baseline = (\<lambda>i. 10 - 4 * real i), dow_ratio = (\<lambda>i. 1),
      in_payday_cycle = (\<lambda>i. False), payday_magnitude = 0.3, festival = None,
      festival_window = 3, band_factor = 0.15\<rparr>"

definition steady_forecast :: "jsnum ForecastResult" where
  "steady_forecast =
     \<lparr>forecast_product_id = ''P-1'', forecast_product_name = ''Whole Chicken'',
      dates = [''2026-01-02'', ''2026-01-03''], predicted_demand = [Fin 10, Fin 10],
      confidence_lower = [Fin 8, Fin 7], confidence_upper = [Fin 12, Fin 13],
      trend = stable, festive_impact = None\<rparr>"

definition steady_months :: "MonthlyTrend list" where
  "steady_months =
     [\<lparr>month = ''Dec 2025'', waste_kg = Fin 20, saved_kg = Fin 5\<rparr>,
      \<lparr>month = ''Jan 2026'', waste_kg = Fin 16, saved_kg = Fin 12\<rparr>]"

section \<open>Theorems\<close>

text \<open>
  C7. The expiry-risk classification of \<open>getExpiryStatus\<close> follows the thresholds:
  a day count of at most 2 is Critical (the highest severity), a day count from 3 to 5 is
  Warning (the medium severity), and exactly the day counts above 5 get a label outside
  the expiry-risk band (Monitor up to 10, Good above).
\<close>

theorem getExpiryStatus_thresholds:
  "(label (getExpiryStatus days) = ''Critical'') = (days \<le> 2)
   \<and> (label (getExpiryStatus days) = ''Warning'') = (3 \<le> days \<and> days \<le> 5)
   \<and> (label (getExpiryStatus days) \<in> {''Monitor'', ''Good''}) = (5 < days)"
  by (auto simp: getExpiryStatus_def)

subsection \<open>Expiry labels\<close>







subsection \<open>Rounding to a double\<close>

lemma round_half_even_error: "\<bar>real_of_int (round_half_even y) - y\<bar> \<le> 1 / 2"
  unfolding round_half_even_def Let_def by (auto split: if_splits)

lemma ulp_pos: "0 < ulp x"
  by (simp add: ulp_def)

lemma round_double_ulp: "\<bar>round_double x - x\<bar> \<le> ulp x / 2"
proof (cases "x = 0")
  case True
  then show ?thesis using ulp_pos [of x] by (simp add: round_double_def)
next
  case False
  let ?m = "real_of_int (round_half_even (x / ulp x))"
  have "?m * ulp x - x = (?m - x / ulp x) * ulp x"
    using ulp_pos [of x] by (simp add: left_diff_distrib)
  then have "\<bar>round_double x - x\<bar> = \<bar>?m - x / ulp x\<bar> * ulp x"
    using False ulp_pos [of x] by (simp add: round_double_def abs_mult)
  also have "\<dots> \<le> 1 / 2 * ulp x"
    using round_half_even_error [of "x / ulp x"] ulp_pos [of x] by (intro mult_right_mono) simp_all
  finally show ?thesis by simp
qed

lemma powi_split: "(2::real) powi (a + b) = 2 powi a * 2 powi b"
  by (simp add: power_int_add)

lemma half_ulp: "ulp x / 2 = 2 powi (binade x + (- 53))"
proof -
  have "binade x - 52 = (binade x + (- 53)) + 1" by simp
  then have "ulp x = 2 powi ((binade x + (- 53)) + 1)" by (simp only: ulp_def)
  also have "\<dots> = 2 powi (binade x + (- 53)) * 2 powi 1" by (rule powi_split)
  finally show ?thesis by simp
qed

lemma floor_log2_eq:
  assumes "0 < y" and "2 powi k \<le> y" and "y < 2 powi (k + 1)"
  shows "\<lfloor>log 2 y\<rfloor> = k"
proof -
  have a: "2 powr (real_of_int k) = 2 powi k" by (simp add: powr_real_of_int')
  have "2 powr (real_of_int (k + 1)) = 2 powi (k + 1)" by (rule powr_real_of_int') simp_all
  then have b: "2 powr (real_of_int k + 1) = 2 powi (k + 1)" by simp
  from assms a b floor_log_eq_powr_iff [OF assms(1), of 2 k] show ?thesis by simp
qed

lemma powi_floor_log_le:
  assumes "x \<noteq> 0"
  shows "2 powi \<lfloor>log 2 \<bar>x\<bar>\<rfloor> \<le> \<bar>x\<bar>"
proof -
  from assms have pos: "0 < \<bar>x\<bar>" by simp
  from floor_log_eq_powr_iff [OF pos, of 2 "\<lfloor>log 2 \<bar>x\<bar>\<rfloor>"]
  have "2 powr (real_of_int \<lfloor>log 2 \<bar>x\<bar>\<rfloor>) \<le> \<bar>x\<bar>" by simp
  then show ?thesis by (simp add: powr_real_of_int')
qed

lemma round_double_error: "\<bar>round_double x - x\<bar> \<le> eps * \<bar>x\<bar> + tiny"
proof (cases "x = 0")
  case True
  then show ?thesis by (simp add: round_double_def tiny_def)
next
  case False
  have e0: "0 \<le> eps" and t0: "0 \<le> tiny" by (simp_all add: eps_def tiny_def)
  show ?thesis
  proof (cases "- 1022 \<le> \<lfloor>log 2 \<bar>x\<bar>\<rfloor>")
    case True
    then have "binade x = \<lfloor>log 2 \<bar>x\<bar>\<rfloor>" by (simp add: binade_def)
    then have "ulp x / 2 = 2 powi \<lfloor>log 2 \<bar>x\<bar>\<rfloor> * eps"
      by (simp only: half_ulp powi_split eps_def)
    also have "\<dots> \<le> \<bar>x\<bar> * eps"
      using powi_floor_log_le [OF False] e0 by (intro mult_right_mono)
    finally have "ulp x / 2 \<le> eps * \<bar>x\<bar>" by (simp add: mult.commute)
    with t0 round_double_ulp [of x] show ?thesis by linarith
  next
    case False
    then have "binade x = - 1022" by (simp add: binade_def)
    moreover have "(- 1022 + (- 53) :: int) = - 1075" by simp
    ultimately have "ulp x / 2 = tiny" by (simp only: half_ulp tiny_def)
    moreover have "0 \<le> eps * \<bar>x\<bar>" using e0 by simp
    ultimately show ?thesis using round_double_ulp [of x] by linarith
  qed
qed

lemma round_double_binade:
  assumes "2 powi k \<le> \<bar>x\<bar>" and "\<bar>x\<bar> < 2 powi (k + 1)" and "- 1022 \<le> k"
  shows "round_double x = real_of_int (round_half_even (x / 2 powi (k - 52))) * 2 powi (k - 52)"
proof -
  have "(0::real) < 2 powi k" by simp
  with assms(1) have pos: "0 < \<bar>x\<bar>" by linarith
  then have nz: "x \<noteq> 0" by simp
  have "\<lfloor>log 2 \<bar>x\<bar>\<rfloor> = k" using pos assms(1,2) by (rule floor_log2_eq)
  with assms(3) have "ulp x = 2 powi (k - 52)" by (simp add: ulp_def binade_def)
  with nz show ?thesis by (simp add: round_double_def)
qed

lemma eps_tiny_le_1: "0 \<le> eps" "eps \<le> 1" "0 \<le> tiny" "tiny \<le> 1"
  by (simp_all add: eps_def tiny_def power_int_minus)

lemma round_double_coarse: "\<bar>round_double x\<bar> \<le> 2 * \<bar>x\<bar> + 1"
proof -
  have "eps * \<bar>x\<bar> \<le> 1 * \<bar>x\<bar>" using eps_tiny_le_1(2) by (intro mult_right_mono) simp_all
  with round_double_error [of x] eps_tiny_le_1(4) show ?thesis by linarith
qed

text \<open>A result of moderate magnitude is finite, and about as large.\<close>

lemma js_round_moderate:
  assumes "\<bar>x\<bar> \<le> 1000"
  shows "is_finite (js_round neg x)" and "\<bar>value_of (js_round neg x)\<bar> \<le> 2 * \<bar>x\<bar> + 1"
proof -
  have "(2001::real) < overflow" by (simp add: overflow_def)
  with assms round_double_coarse [of x] have "\<bar>round_double x\<bar> < overflow" by linarith
  then show "is_finite (js_round neg x)" by (simp add: js_round_def Let_def)
  from round_double_coarse [of x] show "\<bar>value_of (js_round neg x)\<bar> \<le> 2 * \<bar>x\<bar> + 1"
    by (simp add: js_round_def Let_def)
qed


lemma js_round_Fin:
  assumes "round_double x = r" and "r \<noteq> 0" and "\<bar>r\<bar> < overflow"
  shows "js_round neg x = Fin r"
  using assms by (simp add: js_round_def Let_def)


subsection \<open>Bar heights\<close>

lemma height_finite:
  assumes "magnitude_within m x" and "m \<noteq> 0"
  shows "is_finite (js_times (js_div x (Fin m)) (Fin 100))"
proof -
  from assms(1) have fin: "is_finite x" and le: "\<bar>value_of x\<bar> \<le> \<bar>m\<bar>"
    by (simp_all add: magnitude_within_def)
  let ?neg = "negative x \<noteq> negative (Fin m)"
  let ?q = "js_round ?neg (value_of x / m)"
  from fin assms(2) have q: "js_div x (Fin m) = ?q"
    by (cases x) (simp_all add: js_div_def Let_def)
  from le assms(2) have "\<bar>value_of x / m\<bar> \<le> 1" by simp
  with js_round_moderate [of "value_of x / m" ?neg]
  have qf: "is_finite ?q" and qv: "\<bar>value_of ?q\<bar> \<le> 3" by simp_all
  let ?neg' = "negative ?q \<noteq> negative (Fin 100)"
  from qf have t: "js_times ?q (Fin 100) = js_round ?neg' (value_of ?q * 100)"
    by (cases ?q) (simp_all add: js_times_def Let_def)
  from qv have "\<bar>value_of ?q * 100\<bar> \<le> 1000" by simp
  from js_round_moderate(1) [OF this] q t show ?thesis by simp
qed

lemma collect_all_Inr:
  "(\<forall>r \<in> set rs. \<exists>b. r = Inr b \<and> P b) \<Longrightarrow>
   \<exists>bs. collect rs = Inr bs \<and> length bs = length rs \<and> (\<forall>b \<in> set bs. P b)"
proof (induction rs)
  case Nil
  then show ?case by simp
next
  case (Cons r rs)
  then obtain b where r: "r = Inr b" "P b" by auto
  from Cons obtain bs where
    "collect rs = Inr bs" "length bs = length rs" "\<forall>b \<in> set bs. P b" by auto
  with r show ?case by simp
qed

text \<open>
  C3, as amended. No division of the chart components substitutes a fallback. The bar
  heights are finite numbers when the maximum they are divided by is a finite number
  other than zero and no number of the bars exceeds it in magnitude: for a forecast whose
  three number arrays are as long as \<open>dates\<close> and hold finite numbers of magnitude at most
  that of the maximum of \<open>confidence_upper\<close>, the chart renders one bar for each date and
  every height is finite; for a monthly trend whose \<open>waste_kg\<close> and \<open>saved_kg\<close> are
  finite and of magnitude at most that of the maximum \<open>waste_kg\<close>, every waste height and
  saved height is finite.
\<close>

theorem bar_heights_finite:
  "(length (predicted_demand f) = length (dates f)
     \<and> length (confidence_lower f) = length (dates f)
     \<and> length (confidence_upper f) = length (dates f)
     \<and> Math_max (confidence_upper f) = Fin m \<and> m \<noteq> 0
     \<and> list_all (magnitude_within m) (predicted_demand f)
     \<and> list_all (magnitude_within m) (confidence_lower f)
     \<and> list_all (magnitude_within m) (confidence_upper f)
    \<longrightarrow> (\<exists>bars. chart_bars f = Inr bars \<and> length bars = length (dates f)
                \<and> (\<forall>b \<in> set bars. bar_finite b)))
   \<and> (Math_max (map waste_kg ms) = Fin w \<and> w \<noteq> 0
     \<and> list_all (\<lambda>t. magnitude_within w (waste_kg t) \<and> magnitude_within w (saved_kg t)) ms
    \<longrightarrow> (\<forall>hs \<in> set (monthly_trend_bars ms). is_finite (fst hs) \<and> is_finite (snd hs)))"
proof (intro conjI impI)
  assume a: "length (predicted_demand f) = length (dates f)
     \<and> length (confidence_lower f) = length (dates f)
     \<and> length (confidence_upper f) = length (dates f)
     \<and> Math_max (confidence_upper f) = Fin m \<and> m \<noteq> 0
     \<and> list_all (magnitude_within m) (predicted_demand f)
     \<and> list_all (magnitude_within m) (confidence_lower f)
     \<and> list_all (magnitude_within m) (confidence_upper f)"
  let ?rs = "map (chart_bar f (Math_max (confidence_upper f))) [0 ..< length (dates f)]"
  have "\<forall>r \<in> set ?rs. \<exists>b. r = Inr b \<and> bar_finite b"
  proof
    fix r assume "r \<in> set ?rs"
    then obtain i where
      i: "i < length (dates f)" "r = chart_bar f (Math_max (confidence_upper f)) i"
      by auto
    from a i(1) have "magnitude_within m (predicted_demand f ! i)" "magnitude_within m (confidence_lower f ! i)"
      "magnitude_within m (confidence_upper f ! i)"
      by (simp_all add: list_all_length)
    with a have "is_finite (js_times (js_div (predicted_demand f ! i) (Fin m)) (Fin 100))"
      "is_finite (js_times (js_div (confidence_lower f ! i) (Fin m)) (Fin 100))"
      "is_finite (js_times (js_div (confidence_upper f ! i) (Fin m)) (Fin 100))"
      by (simp_all add: height_finite)
    with a i show "\<exists>b. r = Inr b \<and> bar_finite b"
      by (simp add: chart_bar_def bar_finite_def Let_def)
  qed
  from collect_all_Inr [of ?rs bar_finite, OF this]
  show "\<exists>bars. chart_bars f = Inr bars \<and> length bars = length (dates f)
                \<and> (\<forall>b \<in> set bars. bar_finite b)"
    by (simp add: chart_bars_def)
next
  assume z: "Math_max (map waste_kg ms) = Fin w \<and> w \<noteq> 0
     \<and> list_all (\<lambda>t. magnitude_within w (waste_kg t) \<and> magnitude_within w (saved_kg t)) ms"
  show "\<forall>hs \<in> set (monthly_trend_bars ms). is_finite (fst hs) \<and> is_finite (snd hs)"
  proof
    fix hs assume "hs \<in> set (monthly_trend_bars ms)"
    with z obtain t where t: "t \<in> set ms"
      "hs = (js_times (js_div (waste_kg t) (Fin w)) (Fin 100),
             js_times (js_div (saved_kg t) (Fin w)) (Fin 100))"
      by (auto simp: monthly_trend_bars_def Let_def split: if_splits)
    with z have "magnitude_within w (waste_kg t)" "magnitude_within w (saved_kg t)"
      by (simp_all add: list_all_iff)
    with z t(2) show "is_finite (fst hs) \<and> is_finite (snd hs)"
      by (simp add: height_finite)
  qed
qed

lemma Math_max_steady:
  "Math_max (confidence_upper steady_forecast) = Fin 13"
  "Math_max (map waste_kg steady_months) = Fin 20"
  by (simp_all add: Math_max_def max2_def steady_forecast_def steady_months_def)

theorem bar_heights_finite_witness:
  "(\<exists>bars. chart_bars steady_forecast = Inr bars
        \<and> length bars = length (dates steady_forecast)
        \<and> (\<forall>b \<in> set bars. bar_finite b))
   \<and> list_all (\<lambda>hs. is_finite (fst hs) \<and> is_finite (snd hs))
        (monthly_trend_bars steady_months)"
  using bar_heights_finite [of steady_forecast 13 steady_months 20] Math_max_steady
  by (simp add: steady_forecast_def steady_months_def magnitude_within_def list_all_iff)

text \<open>
  C3 as stated fails where the maximum is zero. A forecast of no demand (every array
  \<open>[0]\<close>) gets the bar heights \<open>NaN\<close>, from 0 / 0; a month with no waste and 5 kg saved
  gets the waste height \<open>NaN\<close> and the saved height \<open>Infinity\<close>.
\<close>

theorem zero_maximum_bars:
  "chart_bars no_demand_forecast
     = Inr [\<lparr>height = NaN, lowerHeight = NaN, upperHeight = NaN\<rparr>]
   \<and> monthly_trend_bars [\<lparr>month = ''Jan 2026'', waste_kg = Fin 0, saved_kg = Fin 5\<rparr>]
     = [(NaN, PosInf)]"
  by (simp add: chart_bars_def chart_bar_def no_demand_forecast_def monthly_trend_bars_def
      Math_max_def max2_def js_div_def js_times_def)

text \<open>
  The bound on the magnitudes is needed: with a maximum that is not zero, a number far
  above it overflows. The double \<open>2 ^ 1023\<close> divided by the maximum 1 and multiplied by
  100 is \<open>Infinity\<close>.
\<close>

lemma round_double_2_1023: "round_double (2 ^ 1023) = 2 ^ 1023"
  using round_double_binade [of 1023 "2 ^ 1023"]
  by (simp add: power_int_minus round_half_even_def Let_def)

lemma round_double_100_2_1023: "round_double (2 ^ 1023 * 100) = 2 ^ 1023 * 100"
  using round_double_binade [of 1029 "2 ^ 1023 * 100"]
  by (simp add: power_int_minus round_half_even_def Let_def)

lemma div_by_one: "js_div (Fin (2 ^ 1023)) (Fin 1) = Fin (2 ^ 1023)"
proof -
  have "js_div (Fin (2 ^ 1023)) (Fin 1) = js_round False (2 ^ 1023)"
    by (simp add: js_div_def Let_def)
  also have "\<dots> = Fin (2 ^ 1023)"
    by (rule js_round_Fin [OF round_double_2_1023]) (simp_all add: overflow_def)
  finally show ?thesis .
qed

lemma times_100_overflows: "js_times (Fin (2 ^ 1023)) (Fin 100) = PosInf"
proof -
  have "js_times (Fin (2 ^ 1023)) (Fin 100) = js_round False (2 ^ 1023 * 100)"
    by (simp add: js_times_def Let_def)
  also have "\<dots> = PosInf"
    unfolding js_round_def round_double_100_2_1023 by (simp add: overflow_def)
  finally show ?thesis .
qed

lemma overflowing_height:
  "Math_max (confidence_upper surging_forecast) = Fin 1
   \<and> map_sum id (map height) (chart_bars surging_forecast) = Inr [PosInf]"
proof -
  have m: "Math_max [Fin 1] = Fin 1" by (simp add: Math_max_def max2_def)
  have "chart_bar surging_forecast (Fin 1) 0
        = Inr \<lparr>height = js_times (js_div (Fin (2 ^ 1023)) (Fin 1)) (Fin 100),
               lowerHeight = js_times (js_div (Fin 0) (Fin 1)) (Fin 100),
               upperHeight = js_times (js_div (Fin 1) (Fin 1)) (Fin 100)\<rparr>"
    unfolding chart_bar_def surging_forecast_def by (simp add: Let_def)
  then have "chart_bar surging_forecast (Fin 1) 0
        = Inr \<lparr>height = PosInf,
               lowerHeight = js_times (js_div (Fin 0) (Fin 1)) (Fin 100),
               upperHeight = js_times (js_div (Fin 1) (Fin 1)) (Fin 100)\<rparr>"
    unfolding div_by_one times_100_overflows .
  moreover have "confidence_upper surging_forecast = [Fin 1]"
    "dates surging_forecast = [''2026-01-02'']"
    by (simp_all add: surging_forecast_def)
  ultimately show ?thesis by (simp add: chart_bars_def m)
qed

subsection \<open>The methane offset\<close>













subsection \<open>Marking an alert as sold\<close>

text \<open>
  C6. \<open>handleMarkAsSold\<close> adds the alert's id to the resolved set when the response is ok
  and leaves the set as it was on a response that is not ok and on a rejected request.
  So an alert that was not resolved is resolved afterwards exactly when the request
  succeeded; and when it did not succeed the alert's card is the unresolved one: its type
  label, its own expiry text, its original message and recommended action, and the
  \<open>Mark as Sold\<close> button enabled again.
\<close>

theorem mark_as_sold_atomic:
  "soldAlerts (handleMarkAsSold alert outcome st)
     = (if outcome = Responded True then insert (id_alert alert) (soldAlerts st)
        else soldAlerts st)
   \<and> (id_alert alert \<notin> soldAlerts st \<longrightarrow>
        (id_alert alert \<in> soldAlerts (handleMarkAsSold alert outcome st))
          = (outcome = Responded True))
   \<and> (outcome \<noteq> Responded True \<longrightarrow> id_alert alert \<notin> soldAlerts st \<longrightarrow>
        alert_card (handleMarkAsSold alert outcome st) alert
          = \<lparr>card_badge = alertTypeLabels (alert_type alert),
             card_expiry = alert_expiry_text False alert,
             card_message = message alert,
             card_action = Some (recommended_action alert),
             card_button = Some (''Mark as Sold'', False)\<rparr>)"
  by (cases outcome)
     (auto simp: handleMarkAsSold_def handleMarkAsSold_begin_def handleMarkAsSold_finish_def
        alert_card_def Let_def)

theorem mark_as_sold_atomic_witness:
  "soldAlerts (handleMarkAsSold expired_today_alert Rejected
       (sa_initial (Some [expired_today_alert]))) = {}
   \<and> soldAlerts (handleMarkAsSold expired_today_alert (Responded False)
       (sa_initial (Some [expired_today_alert]))) = {}
   \<and> soldAlerts (handleMarkAsSold expired_today_alert (Responded True)
       (sa_initial (Some [expired_today_alert]))) = {''SA-1''}
   \<and> alert_card (handleMarkAsSold expired_today_alert Rejected
       (sa_initial (Some [expired_today_alert]))) expired_today_alert
       = \<lparr>card_badge = ''Expiry Risk'', card_expiry = Fixed ''EXPIRED'',
          card_message = ''Expires today'', card_action = Some ''Discount now'',
          card_button = Some (''Mark as Sold'', False)\<rparr>"
  using mark_as_sold_atomic
      [of expired_today_alert Rejected "sa_initial (Some [expired_today_alert])"]
    mark_as_sold_atomic
      [of expired_today_alert "Responded False" "sa_initial (Some [expired_today_alert])"]
    mark_as_sold_atomic
      [of expired_today_alert "Responded True" "sa_initial (Some [expired_today_alert])"]
  by (simp add: sa_initial_def expired_today_alert_def alert_expiry_text_def)

subsection \<open>The displayed alerts\<close>

lemma slice0_take: "0 \<le> e \<Longrightarrow> slice0 xs e = take (min (nat e) (length xs)) xs"
  by (auto simp: slice0_def Let_def min_def)

lemma settled_panel_initial: "settled (panel_initial propAlerts)"
  by (simp add: settled_def panel_initial_def)

lemma settled_panel_effect:
  "settled (fetch_alerts_effect propAlerts outcome (panel_initial propAlerts))"
  by (auto simp: settled_def panel_initial_def fetch_alerts_effect_def
      split: option.splits fetch_outcome.splits)

lemma settled_sa_initial: "settled (sa_initial propAlerts)"
  by (simp add: settled_def sa_initial_def)

lemma settled_sa_effect:
  "settled (fetch_alerts_effect propAlerts outcome (sa_initial propAlerts))"
  by (auto simp: settled_def sa_initial_def fetch_alerts_effect_def
      split: option.splits fetch_outcome.splits)

lemma settled_handleMarkAsSold: "settled st \<Longrightarrow> settled (handleMarkAsSold alert outcome st)"
  by (cases outcome)
     (auto simp: settled_def handleMarkAsSold_def handleMarkAsSold_begin_def
        handleMarkAsSold_finish_def Let_def split: if_splits)

text \<open>
  C10. For every list of alerts and every limit \<open>maxItems\<close> (a count, so not negative),
  each of the two panels displays the first \<open>min maxItems (length alerts)\<close> alerts in
  their order, and renders the \<open>View all\<close> button exactly when the list has more than
  \<open>maxItems\<close> alerts. The states are those of a panel's life, in which a panel that is
  loading or shows an error holds no alerts.
\<close>

theorem panels_show_first_maxItems:
  assumes "0 \<le> maxItems" and "settled st" and "settled sa"
  shows "shown_cards (PreparationAlerts maxItems st)
           = take (min (nat maxItems) (length (alerts st))) (alerts st)
       \<and> view_all_shown (PreparationAlerts maxItems st) = (nat maxItems < length (alerts st))
       \<and> shown_cards (SustainabilityAlerts maxItems sa)
           = map (alert_card sa) (take (min (nat maxItems) (length (alerts sa))) (alerts sa))
       \<and> view_all_shown (SustainabilityAlerts maxItems sa) = (nat maxItems < length (alerts sa))"
  using assms
  by (auto simp: PreparationAlerts_def SustainabilityAlerts_def slice0_take settled_def Let_def
      split: if_splits)

theorem panels_show_first_maxItems_witness:
  "shown_cards (PreparationAlerts 2 (panel_initial (Some [''a'', ''b'', ''c''])))
     = [''a'', ''b'']
   \<and> view_all_shown (PreparationAlerts 2 (panel_initial (Some [''a'', ''b'', ''c''])))
   \<and> shown_cards (SustainabilityAlerts 2 (sa_initial (Some [expired_today_alert])))
     = [alert_card (sa_initial (Some [expired_today_alert])) expired_today_alert]
   \<and> \<not> view_all_shown (SustainabilityAlerts 2 (sa_initial (Some [expired_today_alert])))"
  using panels_show_first_maxItems
    [of 2 "panel_initial (Some [''a'', ''b'', ''c''])" "sa_initial (Some [expired_today_alert])",
     OF _ settled_panel_initial settled_sa_initial]
  by (simp add: panel_initial_def sa_initial_def)

subsection \<open>Resolved alerts and the ledger\<close>

lemma run_rounds_append: "run_rounds (cs @ ds) w = run_rounds ds (run_rounds cs w)"
  by (induction cs arbitrary: w) simp_all

lemma ledger_mark_sold_round_mono: "set (ledger w) \<subseteq> set (ledger (mark_sold_round click w))"
  by (cases click) (auto simp: mark_sold_round_def markSold_def split: delivery.splits)

lemma sold_mark_sold_round:
  assumes "aid \<in> soldAlerts (client (mark_sold_round (alert, d, now) w))"
  shows "aid \<in> soldAlerts (client w)
       \<or> (aid = id_alert alert \<and> d = Delivered
           \<and> event_of alert now \<in> set (ledger (mark_sold_round (alert, d, now) w)))"
  using assms
  by (cases d)
     (auto simp: mark_sold_round_def markSold_def mark_sold_body_def event_of_def
        handleMarkAsSold_def handleMarkAsSold_begin_def handleMarkAsSold_finish_def Let_def
        split: if_splits)

text \<open>
  C5. The request that marks an alert as sold carries the alert's \<open>potential_waste_kg\<close> as
  \<open>quantity_kg\<close> and its \<open>potential_loss_rm\<close> as the cost, and the ledger records them:
  after any sequence of clicks on \<open>Mark as Sold\<close>, started with no alert resolved, every
  id in the resolved set belongs to a clicked alert whose event is in the ledger, with
  the alert's id and product, a quantity equal to its \<open>potential_waste_kg\<close> and a cost
  equal to its \<open>potential_loss_rm\<close>.
\<close>

theorem resolved_alert_has_ledger_event:
  assumes "soldAlerts (client w) = {}"
    and "aid \<in> soldAlerts (client (run_rounds clicks w))"
  shows "\<exists>alert now. (alert, Delivered, now) \<in> set clicks \<and> id_alert alert = aid
           \<and> event_of alert now \<in> set (ledger (run_rounds clicks w))
           \<and> event_quantity_kg (event_of alert now) = potential_waste_kg alert
           \<and> cost_recovered (event_of alert now) = potential_loss_rm alert"
  using assms(2)
proof (induction clicks arbitrary: aid rule: rev_induct)
  case Nil
  with assms(1) show ?case by simp
next
  case (snoc click clicks)
  obtain alert d now where click: "click = (alert, d, now)" by (cases click)
  let ?w = "run_rounds clicks w"
  from snoc.prems have "aid \<in> soldAlerts (client (mark_sold_round (alert, d, now) ?w))"
    by (simp add: run_rounds_append click)
  from sold_mark_sold_round [OF this]
  show ?case
  proof
    assume "aid \<in> soldAlerts (client ?w)"
    from snoc.IH [OF this] obtain a t where
      a: "(a, Delivered, t) \<in> set clicks" "id_alert a = aid" "event_of a t \<in> set (ledger ?w)"
      by blast
    from a(3) ledger_mark_sold_round_mono [of ?w click]
    have "event_of a t \<in> set (ledger (run_rounds (clicks @ [click]) w))"
      by (auto simp: run_rounds_append)
    with a(1,2) show ?thesis by (auto simp: event_of_def)
  next
    assume "aid = id_alert alert \<and> d = Delivered
           \<and> event_of alert now \<in> set (ledger (mark_sold_round (alert, d, now) ?w))"
    then show ?thesis by (auto simp: run_rounds_append click event_of_def)
  qed
qed

theorem resolved_alert_has_ledger_event_witness:
  "soldAlerts (client one_click_world) = {}
   \<and> ''SA-1'' \<in> soldAlerts (client (run_rounds [(expired_today_alert, Delivered, 7)] one_click_world))
   \<and> (\<exists>alert now. (alert, Delivered, now) \<in> set [(expired_today_alert, Delivered, 7)]
           \<and> id_alert alert = ''SA-1''
           \<and> event_of alert now
               \<in> set (ledger (run_rounds [(expired_today_alert, Delivered, 7)] one_click_world))
           \<and> event_quantity_kg (event_of alert now) = potential_waste_kg alert
           \<and> cost_recovered (event_of alert now) = potential_loss_rm alert)"
proof -
  have h1: "soldAlerts (client one_click_world) = {}"
    by (simp add: one_click_world_def sa_initial_def)
  have h2: "''SA-1'' \<in> soldAlerts (client (run_rounds [(expired_today_alert, Delivered, 7)] one_click_world))"
    by (simp add: one_click_world_def sa_initial_def mark_sold_round_def markSold_def
        mark_sold_body_def handleMarkAsSold_def handleMarkAsSold_begin_def
        handleMarkAsSold_finish_def expired_today_alert_def)
  from resolved_alert_has_ledger_event [OF h1 h2] h1 h2 show ?thesis by blast
qed

subsection \<open>The horizon of the client's forecast requests\<close>

lemma parseInt_options:
  "parseInt ''7'' = Fin 7" "parseInt ''14'' = Fin 14" "parseInt ''30'' = Fin 30"
  by (simp_all add: parseInt_def is_space_def is_digit_of_def digit_value_def digits_value_def)

lemma page_step_supported:
  assumes "from_select e" and "forecastDays st \<in> {Fin 7, Fin 14, Fin 30}"
  shows "forecastDays (page_step e st) \<in> {Fin 7, Fin 14, Fin 30}"
  using assms
  by (cases e) (auto simp: handleRefresh_def handleDaysChange_def select_options_def parseInt_options)

lemma run_page_supported:
  assumes "list_all from_select events" and "forecastDays st \<in> {Fin 7, Fin 14, Fin 30}"
  shows "forecastDays (run_page events st) \<in> {Fin 7, Fin 14, Fin 30}"
  using assms
proof (induction events arbitrary: st)
  case Nil
  then show ?case by simp
next
  case (Cons e es)
  from Cons.prems have "from_select e" "list_all from_select es" by simp_all
  with Cons.prems(2) page_step_supported [of e st] Cons.IH [of "page_step e st"]
  show ?case by simp
qed

text \<open>
  C8. Every forecast request of the client asks for 7, 14 or 30 days. The forecasts page
  starts with 14 and, whatever the user does (refreshing, choosing options of the
  \<open>select\<close>), the \<open>days\<close> it hands to \<open>ForecastChart\<close> is the value of one of the three
  options; the dashboard's chart is given no \<open>days\<close> and asks for the default 14, which
  is also the default of the two request functions of \<open>lib/api.ts\<close>. So the forecaster's
  check of the horizon never answers \<open>InvalidHorizon\<close> to this client.
\<close>

theorem client_horizons_supported:
  assumes "list_all from_select events"
  shows "forecasts_page_request_days (run_page events forecasts_page_initial) \<in> {Fin 7, Fin 14, Fin 30}
     \<and> check_horizon (forecasts_page_request_days (run_page events forecasts_page_initial))
          \<noteq> Inl InvalidHorizon
     \<and> forecasts_page_request_days forecasts_page_initial = Fin 14
     \<and> dashboard_request_days = Fin 14
     \<and> check_horizon dashboard_request_days \<noteq> Inl InvalidHorizon
     \<and> getForecast_days None = Fin 14
     \<and> getAllForecasts_days None = Fin 14"
proof -
  have "forecastDays (run_page events forecasts_page_initial) \<in> {Fin 7, Fin 14, Fin 30}"
    using assms by (rule run_page_supported) (simp add: forecasts_page_initial_def)
  then show ?thesis
    by (auto simp: forecasts_page_request_days_def dashboard_request_days_def
        ForecastChart_days_def check_horizon_def forecasts_page_initial_def
        getForecast_days_def getAllForecasts_days_def)
qed

theorem client_horizons_supported_witness:
  "list_all from_select [DaysChange ''30'', RefreshClick, DaysChange ''7'']
   \<and> forecasts_page_request_days
       (run_page [DaysChange ''30'', RefreshClick, DaysChange ''7''] forecasts_page_initial) = Fin 7
   \<and> forecasts_page_request_days
       (run_page [DaysChange ''30'', RefreshClick] forecasts_page_initial) = Fin 30"
proof -
  have h: "list_all from_select [DaysChange ''30'', RefreshClick, DaysChange ''7'']"
    by (simp add: select_options_def)
  from client_horizons_supported [OF h] h show ?thesis
    by (simp add: forecasts_page_request_days_def ForecastChart_days_def handleDaysChange_def
        handleRefresh_def parseInt_options)
qed

subsection \<open>The festival banner\<close>






subsection \<open>The forecast result\<close>

lemma band_order:
  assumes "0 \<le> k" and "0 \<le> s"
  shows "(max 0 (p - p * k * s) \<le> p \<and> p \<le> p + p * k * s) = (0 \<le> (p::real))"
proof (cases "0 \<le> p")
  case True
  with assms have "0 \<le> p * k * s" by simp
  with True show ?thesis by simp
next
  case False
  then show ?thesis by simp
qed

text \<open>
  C2, as amended. For every supported horizon the forecaster returns a result whose
  \<open>dates\<close>, \<open>predicted_demand\<close>, \<open>confidence_lower\<close> and \<open>confidence_upper\<close> have the length
  of the requested horizon, so that \<open>ForecastChart\<close>, which reads the three number arrays
  at every position of \<open>dates\<close>, reads them in bounds. With a band factor that is not
  negative, the lower bound is at most the predicted demand and the predicted demand at
  most the upper bound exactly at the positions where the predicted demand is not
  negative.
\<close>

theorem forecast_lengths_and_bounds:
  assumes "check_horizon horizon_days = Inr h" and "0 \<le> band_factor inp"
  shows "\<exists>r. forecast inp horizon_days = Inr r
       \<and> length (dates r) = h \<and> length (predicted_demand r) = h
       \<and> length (confidence_lower r) = h \<and> length (confidence_upper r) = h
       \<and> (\<forall>i < h.
             (confidence_lower r ! i \<le> predicted_demand r ! i
              \<and> predicted_demand r ! i \<le> confidence_upper r ! i)
             = (0 \<le> predicted_demand r ! i))
       \<and> chart_bars (received r) \<noteq> Inl TypeError"
proof -
  let ?r = "\<lparr>forecast_product_id = fc_product_id inp,
             forecast_product_name = fc_product_name inp,
             dates = map (\<lambda>i. date_text inp (today inp + 1 + int i)) [0 ..< h],
             predicted_demand = map (predicted_day inp) [0 ..< h],
             confidence_lower = map (\<lambda>i. max 0 (predicted_day inp i - bound inp i)) [0 ..< h],
             confidence_upper = map (\<lambda>i. predicted_day inp i + bound inp i) [0 ..< h],
             trend = classify_trend (map (predicted_day inp) [0 ..< h]),
             festive_impact = map_option fst (festival inp)\<rparr>"
  have r: "forecast inp horizon_days = Inr ?r"
    using assms(1) by (simp add: forecast_def Let_def)
  have order: "\<forall>i < h.
             (confidence_lower ?r ! i \<le> predicted_demand ?r ! i
              \<and> predicted_demand ?r ! i \<le> confidence_upper ?r ! i)
             = (0 \<le> predicted_demand ?r ! i)"
  proof (intro allI impI)
    fix i assume i: "i < h"
    from band_order [OF assms(2), of "sqrt (real (i + 1))" "predicted_day inp i"] i
    show "(confidence_lower ?r ! i \<le> predicted_demand ?r ! i
              \<and> predicted_demand ?r ! i \<le> confidence_upper ?r ! i)
             = (0 \<le> predicted_demand ?r ! i)"
      by (simp add: bound_def)
  qed
  have "\<forall>x \<in> set (map (chart_bar (received ?r)
                  (Math_max (confidence_upper (received ?r))))
                [0 ..< length (dates (received ?r))]).
          \<exists>b. x = Inr b \<and> True"
    by (auto simp: chart_bar_def received_def Let_def)
  from collect_all_Inr [OF this] have "chart_bars (received ?r) \<noteq> Inl TypeError"
    by (auto simp: chart_bars_def Let_def)
  with r order show ?thesis by simp
qed

theorem forecast_lengths_and_bounds_witness:
  "check_horizon (Fin 7) = Inr 7
   \<and> 0 \<le> band_factor constant_inputs
   \<and> (\<exists>r. forecast constant_inputs (Fin 7) = Inr r
       \<and> length (dates r) = 7 \<and> length (predicted_demand r) = 7
       \<and> length (confidence_lower r) = 7 \<and> length (confidence_upper r) = 7
       \<and> (\<forall>i < 7.
             (confidence_lower r ! i \<le> predicted_demand r ! i
              \<and> predicted_demand r ! i \<le> confidence_upper r ! i)
             = (0 \<le> predicted_demand r ! i))
       \<and> chart_bars (received r) \<noteq> Inl TypeError)"
proof -
  have h1: "check_horizon (Fin 7) = Inr 7" by (simp add: check_horizon_def)
  have h2: "0 \<le> band_factor constant_inputs" by (simp add: constant_inputs_def)
  from forecast_lengths_and_bounds [OF h1 h2] h1 h2 show ?thesis by blast
qed

text \<open>
  C2 as stated fails where the trend of the regression takes the prediction below zero.
  With a baseline of 10 falling by 4 a day the fourth day of a 7-day forecast has the
  predicted demand -2, the lower bound 0, floored, above it, and the upper bound -2.6
  below it.
\<close>

theorem negative_prediction_out_of_band:
  "map_sum id (\<lambda>r. (predicted_demand r ! 3, confidence_lower r ! 3, confidence_upper r ! 3))
     (forecast declining_inputs (Fin 7)) = Inr (- 2, 0, - 2.6)"
  by (simp add: forecast_def check_horizon_def predicted_day_def bound_def
      declining_inputs_def clamp_multiplier_def payday_multiplier_def festival_overlay_def
      Let_def)

text \<open>
  The example of the spec: a history of a constant 10 units a day, no festival, a horizon
  of 7 days: the predicted demand is 10 on each day and the trend is stable.
\<close>

lemma constant_history_example:
  "map_sum id predicted_demand (forecast constant_inputs (Fin 7)) = Inr [10, 10, 10, 10, 10, 10, 10]
  \<and> map_sum id trend (forecast constant_inputs (Fin 7)) = Inr stable"
  by (simp add: forecast_def check_horizon_def predicted_day_def constant_inputs_def
      clamp_multiplier_def payday_multiplier_def festival_overlay_def classify_trend_def mean_def
      upt_rec Let_def)

end
